theory Spec2Isabelle
  imports Main "HOL-Library.Word" "HOL-Library.Sublist"
begin

section \<open>The Atomic Blog: post store, search filter and add-post form\<close>

text \<open>
  The three source files (\<^verbatim>\<open>src/PostContext.js\<close>, \<^verbatim>\<open>src/App-v1.js\<close> and the memoised
  variant) hold the same store: a list of posts and a search query kept in two
  \<^verbatim>\<open>useState\<close> cells, a derived list \<^verbatim>\<open>searchedPosts\<close>, and the handlers
  \<^verbatim>\<open>handleAddPost\<close>, \<^verbatim>\<open>handleClearPosts\<close> and \<^verbatim>\<open>setSearchQuery\<close>.
\<close>

subsection \<open>JavaScript strings and the two string built-ins the filter calls\<close>

text \<open>A JavaScript string is a sequence of 16-bit code units.\<close>

type_synonym jsstring = "16 word list"

text \<open>A string literal of the source, written with ASCII characters.\<close>

definition lit :: "string \<Rightarrow> jsstring" where
  "lit cs = map of_char cs"

text \<open>
  \<^verbatim>\<open>String.prototype.includes\<close> is \<^verbatim>\<open>StringIndexOf(S, searchStr, 0) \<noteq> NOT_FOUND\<close>.
  \<^verbatim>\<open>StringIndexOf\<close> tries every index \<open>i\<close> from the start index up to
  \<open>len - searchLen\<close> in ascending order and returns the first one at which the
  substring of length \<open>searchLen\<close> equals the search value; \<open>None\<close> is
  \<^verbatim>\<open>NOT_FOUND\<close>.
\<close>

function StringIndexOf :: "jsstring \<Rightarrow> jsstring \<Rightarrow> nat \<Rightarrow> nat option" where
  "StringIndexOf s searchValue i =
     (if length s < i + length searchValue then None
      else if take (length searchValue) (drop i s) = searchValue then Some i
      else StringIndexOf s searchValue (Suc i))"
  by pat_completeness auto
termination
  by (relation "measure (\<lambda>(s, searchValue, i). Suc (length s) - i)") auto

declare StringIndexOf.simps [simp del]

definition String_includes :: "jsstring \<Rightarrow> jsstring \<Rightarrow> bool" where
  "String_includes s searchString = (StringIndexOf s searchString 0 \<noteq> None)"

text \<open>
  \<^verbatim>\<open>String.prototype.toLowerCase\<close> belongs to the JavaScript runtime and follows the
  Unicode case tables, so the filter takes it as a parameter \<open>lc\<close>. Two things are
  known of the runtime's function and written out below.

  On a string of Basic Latin code units (U+0000..U+007F) it maps \<open>A\<close>..\<open>Z\<close> to
  \<open>a\<close>..\<open>z\<close> and leaves every other code unit alone: that is \<open>toLowerCase_ascii\<close>.
\<close>

definition lower_unit :: "16 word \<Rightarrow> 16 word" where
  "lower_unit c = (if 0x41 \<le> c \<and> c \<le> 0x5A then c + 0x20 else c)"

definition toLowerCase_ascii :: "jsstring \<Rightarrow> jsstring" where
  "toLowerCase_ascii s = map lower_unit s"

definition Basic_Latin :: "jsstring \<Rightarrow> bool" where
  "Basic_Latin s = list_all (\<lambda>c. c < 0x80) s"

text \<open>
  It is not a map over code units: the Greek capital sigma (U+03A3) becomes the final
  small sigma (U+03C2) where the Unicode condition \<^verbatim>\<open>Final_Sigma\<close> holds (a cased letter
  and then any number of case-ignorable characters come before it, and no run of
  case-ignorable characters and then a cased letter comes after it) and the small
  sigma (U+03C3) elsewhere. \<open>toLowerCase_greek\<close> is the runtime's function on strings
  made of Basic Latin code units and the Greek letters U+0391..U+03A9 and
  U+03B1..U+03C9. Among these the cased letters are the Latin and the Greek letters,
  and the case-ignorable characters are \<^verbatim>\<open>' . : ^ `\<close>.
\<close>

definition cased :: "16 word \<Rightarrow> bool" where
  "cased c =
     ((0x41 \<le> c \<and> c \<le> 0x5A) \<or> (0x61 \<le> c \<and> c \<le> 0x7A)
      \<or> (0x391 \<le> c \<and> c \<le> 0x3A9 \<and> c \<noteq> 0x3A2) \<or> (0x3B1 \<le> c \<and> c \<le> 0x3C9))"

definition case_ignorable :: "16 word \<Rightarrow> bool" where
  "case_ignorable c = (c = 0x27 \<or> c = 0x2E \<or> c = 0x3A \<or> c = 0x5E \<or> c = 0x60)"

definition lower_letter :: "16 word \<Rightarrow> 16 word" where
  "lower_letter c =
     (if (0x41 \<le> c \<and> c \<le> 0x5A) \<or> (0x391 \<le> c \<and> c \<le> 0x3A9 \<and> c \<noteq> 0x3A2)
      then c + 0x20 else c)"

fun cased_follows :: "jsstring \<Rightarrow> bool" where
  "cased_follows [] = False"
| "cased_follows (c # cs) = (if case_ignorable c then cased_follows cs else cased c)"

fun lower_from :: "bool \<Rightarrow> jsstring \<Rightarrow> jsstring" where
  "lower_from cased_before [] = []"
| "lower_from cased_before (c # cs) =
     (if c = 0x3A3
      then (if cased_before \<and> \<not> cased_follows cs then 0x3C2 else 0x3C3)
      else lower_letter c)
     # lower_from (if case_ignorable c then cased_before else cased c) cs"

definition toLowerCase_greek :: "jsstring \<Rightarrow> jsstring" where
  "toLowerCase_greek s = lower_from False s"

text \<open>
  What it means for the text \<open>t\<close> to contain the query \<open>q\<close> as a case-insensitive
  substring, said without any lower-casing: at some position of \<open>t\<close> the code units
  of \<open>q\<close> follow one another, each either the same as in \<open>q\<close> or the other case of
  the same letter \<open>A\<close>..\<open>Z\<close>.
\<close>

definition same_letter :: "16 word \<Rightarrow> 16 word \<Rightarrow> bool" where
  "same_letter a b =
     (a = b \<or> (0x41 \<le> a \<and> a \<le> 0x5A \<and> b = a + 0x20) \<or> (0x41 \<le> b \<and> b \<le> 0x5A \<and> a = b + 0x20))"

fun case_insensitive_prefix :: "jsstring \<Rightarrow> jsstring \<Rightarrow> bool" where
  "case_insensitive_prefix [] t = True"
| "case_insensitive_prefix (a # q) [] = False"
| "case_insensitive_prefix (a # q) (b # t) = (same_letter a b \<and> case_insensitive_prefix q t)"

fun case_insensitive_substring :: "jsstring \<Rightarrow> jsstring \<Rightarrow> bool" where
  "case_insensitive_substring q [] = (q = [])"
| "case_insensitive_substring q (b # t) =
     (case_insensitive_prefix q (b # t) \<or> case_insensitive_substring q t)"

subsection \<open>Posts and the store\<close>

text \<open>
  A post is an object read through its properties \<^verbatim>\<open>title\<close> and \<^verbatim>\<open>body\<close>. A property
  that the object lacks reads as \<^verbatim>\<open>undefined\<close>.
\<close>

datatype jsvalue = Undefined | JSString jsstring

record post =
  title :: jsvalue
  body :: jsvalue

text \<open>The conversion a template literal applies to each substitution.\<close>

fun ToString :: "jsvalue \<Rightarrow> jsstring" where
  "ToString Undefined = lit ''undefined''"
| "ToString (JSString s) = s"

text \<open>The template literal \<^verbatim>\<open>`${post.title} ${post.body}`\<close>.\<close>

definition post_text :: "post \<Rightarrow> jsstring" where
  "post_text p = ToString (title p) @ lit '' '' @ ToString (body p)"

text \<open>The two state cells of \<^verbatim>\<open>PostProvider\<close> (and of \<^verbatim>\<open>App\<close> in the other variants).\<close>

record store =
  posts :: "post list"
  searchQuery :: jsstring

text \<open>
  \<^verbatim>\<open>
  const searchedPosts =
    searchQuery.length > 0
      ? posts.filter((post) =>
          `${post.title} ${post.body}`
            .toLowerCase()
            .includes(searchQuery.toLowerCase()))
      : posts;
  \<close>
\<close>

definition searchedPosts :: "(jsstring \<Rightarrow> jsstring) \<Rightarrow> store \<Rightarrow> post list" where
  "searchedPosts lc st =
     (if length (searchQuery st) > 0
      then filter (\<lambda>p. String_includes (lc (post_text p)) (lc (searchQuery st))) (posts st)
      else posts st)"

text \<open>\<^verbatim>\<open>setPosts((posts) => [post, ...posts])\<close>\<close>

definition handleAddPost :: "post \<Rightarrow> store \<Rightarrow> store" where
  "handleAddPost p st = st\<lparr>posts := p # posts st\<rparr>"

text \<open>\<^verbatim>\<open>setPosts([])\<close>\<close>

definition handleClearPosts :: "store \<Rightarrow> store" where
  "handleClearPosts st = st\<lparr>posts := []\<rparr>"

text \<open>The setter of the \<^verbatim>\<open>searchQuery\<close> cell.\<close>

definition setSearchQuery :: "jsstring \<Rightarrow> store \<Rightarrow> store" where
  "setSearchQuery q st = st\<lparr>searchQuery := q\<rparr>"

subsection \<open>Store creation\<close>

text \<open>
  \<^verbatim>\<open>faker.hacker.adjective()\<close>, \<^verbatim>\<open>noun()\<close> and \<^verbatim>\<open>phrase()\<close> draw from the library's
  pseudo-random generator: each takes the generator state \<open>'g\<close> and returns a string
  and the next state.
\<close>

record 'g faker =
  hacker_adjective :: "'g \<Rightarrow> jsstring \<times> 'g"
  hacker_noun :: "'g \<Rightarrow> jsstring \<times> 'g"
  hacker_phrase :: "'g \<Rightarrow> jsstring \<times> 'g"

text \<open>
  \<^verbatim>\<open>
  function createRandomPost() {
    return {
      title: `${faker.hacker.adjective()} ${faker.hacker.noun()}`,
      body: faker.hacker.phrase(),
    };
  }
  \<close>
\<close>

definition createRandomPost :: "'g faker \<Rightarrow> 'g \<Rightarrow> post \<times> 'g" where
  "createRandomPost fk g0 =
     (let (adjective, g1) = hacker_adjective fk g0;
          (noun, g2) = hacker_noun fk g1;
          (phrase, g3) = hacker_phrase fk g2
      in (\<lparr>title = JSString (adjective @ lit '' '' @ noun), body = JSString phrase\<rparr>, g3))"

text \<open>
  \<^verbatim>\<open>Array.from({ length: n }, mapFn)\<close> calls \<open>mapFn\<close> once for each index
  \<open>0, \<dots>, n - 1\<close> in ascending order and stores the results in that order.
\<close>

fun Array_from :: "nat \<Rightarrow> ('g \<Rightarrow> 'a \<times> 'g) \<Rightarrow> 'g \<Rightarrow> 'a list \<times> 'g" where
  "Array_from 0 mapFn g = ([], g)"
| "Array_from (Suc n) mapFn g =
     (let (x, g1) = mapFn g; (xs, g2) = Array_from n mapFn g1 in (x # xs, g2))"

text \<open>
  The state cells of \<^verbatim>\<open>PostProvider\<close> across renders. \<^verbatim>\<open>useState(init)\<close> runs its
  initialiser on the initial render only (\<open>None\<close>: the component has not been
  rendered yet); on every later render it returns the stored state.
  \<^verbatim>\<open>
  const [posts, setPosts] = useState(() =>
    Array.from({ length: 30 }, () => createRandomPost()));
  const [searchQuery, setSearchQuery] = useState("");
  \<close>
\<close>

definition PostProvider :: "'g faker \<Rightarrow> store option \<Rightarrow> 'g \<Rightarrow> store \<times> 'g" where
  "PostProvider fk cells g =
     (case cells of
        None \<Rightarrow>
          (let (ps, g1) = Array_from 30 (createRandomPost fk) g
           in (\<lparr>posts = ps, searchQuery = []\<rparr>, g1))
      | Some st \<Rightarrow> (st, g))"

subsection \<open>The add-post form\<close>

text \<open>The two state cells of \<^verbatim>\<open>FormAddPost\<close>, both strings.\<close>

record form =
  form_title :: jsstring
  form_body :: jsstring

record submit_event =
  defaultPrevented :: bool

text \<open>\<^verbatim>\<open>!s\<close> for a string \<open>s\<close>: only the empty string is falsy.\<close>

definition not_string :: "jsstring \<Rightarrow> bool" where
  "not_string s = (length s = 0)"

text \<open>
  \<^verbatim>\<open>
  const handleSubmit = function (e) {
    e.preventDefault();
    if (!body || !title) return;
    onAddPost({ title, body });
    setTitle("");
    setBody("");
  };
  \<close>
  The callback \<open>onAddPost\<close> acts on a state \<open>'s\<close> of its own.
\<close>

definition handleSubmit ::
  "(post \<Rightarrow> 's \<Rightarrow> 's) \<Rightarrow> submit_event \<Rightarrow> form \<Rightarrow> 's \<Rightarrow> submit_event \<times> form \<times> 's" where
  "handleSubmit onAddPost e f st =
     (let e1 = e\<lparr>defaultPrevented := True\<rparr> in
      if not_string (form_body f) \<or> not_string (form_title f) then (e1, f, st)
      else
        (let st1 = onAddPost \<lparr>title = JSString (form_title f), body = JSString (form_body f)\<rparr> st;
             f1 = f\<lparr>form_title := []\<rparr>;
             f2 = f1\<lparr>form_body := []\<rparr>
         in (e1, f2, st1)))"

text \<open>A callback that only records the posts it is called with, in call order.\<close>

definition record_call :: "post \<Rightarrow> post list \<Rightarrow> post list" where
  "record_call p calls = calls @ [p]"

subsection \<open>Reading the context\<close>

text \<open>
  The components above a consumer, nearest first. \<^verbatim>\<open>PostContext\<close> is not exported,
  so its only providers are \<^verbatim>\<open>PostProvider\<close> elements, each carrying the value object
  it passes to \<^verbatim>\<open>PostContext.Provider\<close>.
\<close>

datatype 'v element = PostProvider_element 'v | Other_element

text \<open>
  \<^verbatim>\<open>useContext(PostContext)\<close> returns the value of the nearest provider above the
  caller, and the default of \<^verbatim>\<open>createContext()\<close>, which is \<^verbatim>\<open>undefined\<close> (here
  \<open>None\<close>), when there is none.
\<close>

fun useContext :: "'v element list \<Rightarrow> 'v option" where
  "useContext [] = None"
| "useContext (PostProvider_element v # up) = Some v"
| "useContext (Other_element # up) = useContext up"

datatype error = Error string

text \<open>
  \<^verbatim>\<open>
  function usePosts() {
    const context = useContext(PostContext);
    if (context === undefined) {
      throw new Error("PostContext was used outside of the PostProvider");
    }
    return context;
  }
  \<close>
\<close>

definition usePosts :: "'v element list \<Rightarrow> error + 'v" where
  "usePosts up =
     (let context = useContext up in
      case context of
        None \<Rightarrow> Inl (Error ''PostContext was used outside of the PostProvider'')
      | Some v \<Rightarrow> Inr v)"

text \<open>
  The value object \<^verbatim>\<open>PostProvider\<close> provides: the derived list under the name
  \<^verbatim>\<open>posts\<close>, the two handlers, the query and its setter.
\<close>

record context_value =
  ctx_posts :: "post list"
  onAddPost :: "post \<Rightarrow> store \<Rightarrow> store"
  onClearPosts :: "store \<Rightarrow> store"
  ctx_searchQuery :: jsstring
  ctx_setSearchQuery :: "jsstring \<Rightarrow> store \<Rightarrow> store"

definition provided_value :: "(jsstring \<Rightarrow> jsstring) \<Rightarrow> store \<Rightarrow> context_value" where
  "provided_value lc st =
     \<lparr>ctx_posts = searchedPosts lc st,
      onAddPost = handleAddPost,
      onClearPosts = handleClearPosts,
      ctx_searchQuery = searchQuery st,
      ctx_setSearchQuery = setSearchQuery\<rparr>"

subsection \<open>Concrete inputs\<close>

text \<open>Two posts, a store holding them, and a deterministic stand-in for the generator.\<close>

definition quantum_post :: post where
  "quantum_post = \<lparr>title = JSString (lit ''Quantum Driver''), body = JSString (lit ''Try to hack the bus'')\<rparr>"

definition edge_post :: post where
  "edge_post = \<lparr>title = JSString (lit ''Edge''), body = JSString (lit ''Case'')\<rparr>"

definition quantum_store :: store where
  "quantum_store = \<lparr>posts = [edge_post, quantum_post], searchQuery = lit ''quantum''\<rparr>"

text \<open>The same post with its text in capitals.\<close>

definition QUANTUM_post :: post where
  "QUANTUM_post = \<lparr>title = JSString (lit ''QUANTUM DRIVER''), body = JSString (lit ''TRY TO HACK THE BUS'')\<rparr>"

text \<open>
  A post with the Greek title \<^verbatim>\<open>U+0391 U+03A3 U+0391\<close> (capital alpha, sigma, alpha) and
  the body \<^verbatim>\<open>x\<close>, and a store that holds it with the first two letters of the title
  as query.
\<close>

definition greek_post :: post where
  "greek_post = \<lparr>title = JSString [0x391, 0x3A3, 0x391], body = JSString (lit ''x'')\<rparr>"

definition greek_store :: store where
  "greek_store = \<lparr>posts = [greek_post], searchQuery = [0x391, 0x3A3]\<rparr>"

definition counting_faker :: "nat faker" where
  "counting_faker =
     \<lparr>hacker_adjective = (\<lambda>g. (lit ''virtual'', Suc g)),
      hacker_noun = (\<lambda>g. (replicate g 0x78, Suc g)),
      hacker_phrase = (\<lambda>g. (lit ''We need to copy the bus'', Suc g))\<rparr>"

section \<open>Properties\<close>

subsection \<open>The string built-ins\<close>

lemma StringIndexOf_None_iff:
  "StringIndexOf s q i = None \<longleftrightarrow>
     (\<forall>k\<ge>i. k + length q \<le> length s \<longrightarrow> take (length q) (drop k s) \<noteq> q)"
proof (induction s q i rule: StringIndexOf.induct)
  case (1 s q i)
  show ?case
  proof (cases "length s < i + length q")
    case True
    then show ?thesis by (simp add: StringIndexOf.simps)
  next
    case False
    note inrange = this
    show ?thesis
    proof (cases "take (length q) (drop i s) = q")
      case True
      with inrange show ?thesis by (auto simp add: StringIndexOf.simps)
    next
      case False
      with inrange 1 have "StringIndexOf s q i = None \<longleftrightarrow>
        (\<forall>k\<ge>Suc i. k + length q \<le> length s \<longrightarrow> take (length q) (drop k s) \<noteq> q)"
        by (simp add: StringIndexOf.simps)
      also have "\<dots> \<longleftrightarrow>
        (\<forall>k\<ge>i. k + length q \<le> length s \<longrightarrow> take (length q) (drop k s) \<noteq> q)"
        using False by (metis Suc_leD Suc_leI le_neq_implies_less)
      finally show ?thesis .
    qed
  qed
qed

lemma sublist_iff_take_drop:
  "sublist q s \<longleftrightarrow> (\<exists>k. k + length q \<le> length s \<and> take (length q) (drop k s) = q)"
proof
  assume "sublist q s"
  then obtain pre suf where "s = pre @ q @ suf" by (auto simp: sublist_def)
  then have "length pre + length q \<le> length s \<and> take (length q) (drop (length pre) s) = q"
    by simp
  then show "\<exists>k. k + length q \<le> length s \<and> take (length q) (drop k s) = q" by blast
next
  assume "\<exists>k. k + length q \<le> length s \<and> take (length q) (drop k s) = q"
  then obtain k where k: "take (length q) (drop k s) = q" by blast
  have "s = take k s @ drop k s" by simp
  also have "drop k s = take (length q) (drop k s) @ drop (length q) (drop k s)"
    by (simp only: append_take_drop_id)
  finally have "s = take k s @ take (length q) (drop k s) @ drop (length q) (drop k s)" .
  with k show "sublist q s" unfolding sublist_def by metis
qed

text \<open>\<^verbatim>\<open>s.includes(q)\<close> holds exactly when \<open>q\<close> occurs in \<open>s\<close> as a contiguous run.\<close>

lemma String_includes_sublist: "String_includes s q \<longleftrightarrow> sublist q s"
  by (simp add: String_includes_def StringIndexOf_None_iff sublist_iff_take_drop)

lemma lit_space: "lit '' '' = [0x20]"
  by (simp add: lit_def)

lemma toLowerCase_ascii_Edge_Case: "toLowerCase_ascii (lit ''Edge Case'') = lit ''edge case''"
  by (simp add: toLowerCase_ascii_def lower_unit_def lit_def)

lemma toLowerCase_ascii_gecas: "toLowerCase_ascii (lit ''gecas'') = lit ''gecas''"
  by (simp add: toLowerCase_ascii_def lower_unit_def lit_def)

lemma toLowerCase_ascii_dge_cas: "toLowerCase_ascii (lit ''dge cas'') = lit ''dge cas''"
  by (simp add: toLowerCase_ascii_def lower_unit_def lit_def)

lemma edge_case_includes_dge_cas: "String_includes (lit ''edge case'') (lit ''dge cas'')"
  by (simp add: String_includes_def StringIndexOf.simps lit_def)

lemma edge_case_excludes_gecas: "\<not> String_includes (lit ''edge case'') (lit ''gecas'')"
  by (simp add: String_includes_def StringIndexOf.simps lit_def)

lemma post_text_edge_post: "post_text edge_post = lit ''Edge Case''"
  by (simp add: post_text_def edge_post_def lit_def)

subsection \<open>The derived list\<close>

lemma searchedPosts_filter:
  "length (searchQuery st) \<noteq> 0 \<Longrightarrow>
   searchedPosts lc st =
     filter (\<lambda>p. sublist (lc (searchQuery st)) (lc (post_text p))) (posts st)"
  by (simp add: searchedPosts_def String_includes_sublist)

subsection \<open>Lower-casing on Basic Latin\<close>

lemma lower_unit_eq_iff: "lower_unit a = lower_unit b \<longleftrightarrow> same_letter a b"
  unfolding lower_unit_def same_letter_def
  by (auto; unat_arith)

lemma same_letter_Basic_Latin: "same_letter a b \<Longrightarrow> b < 0x80 \<Longrightarrow> a < 0x80"
  unfolding same_letter_def
  by (auto; unat_arith)

lemma case_insensitive_prefix_iff:
  "case_insensitive_prefix q t \<longleftrightarrow> prefix (map lower_unit q) (map lower_unit t)"
  by (induction q t rule: case_insensitive_prefix.induct)
     (simp_all add: lower_unit_eq_iff)

text \<open>
  Containing \<open>q\<close> as a case-insensitive substring is containing the lower-cased \<open>q\<close>
  after lower-casing code unit by code unit.
\<close>

lemma case_insensitive_substring_iff:
  "case_insensitive_substring q t \<longleftrightarrow> sublist (map lower_unit q) (map lower_unit t)"
proof (induction t)
  case Nil
  show ?case by simp
next
  case (Cons b t)
  show ?case
    by (simp only: case_insensitive_substring.simps Cons.IH case_insensitive_prefix_iff
        sublist_Cons_right list.map)
qed

lemma same_letters_lower:
  "list_all2 same_letter q r \<Longrightarrow> map lower_unit q = map lower_unit r"
  by (induction rule: list_all2_induct) (simp_all add: lower_unit_eq_iff)

lemma same_letters_Basic_Latin:
  "list_all2 same_letter q r \<Longrightarrow> Basic_Latin r \<Longrightarrow> Basic_Latin q"
  unfolding Basic_Latin_def
  by (induction rule: list_all2_induct) (auto intro: same_letter_Basic_Latin)

lemma lower_letter_Basic_Latin: "c < 0x80 \<Longrightarrow> c \<noteq> 0x3A3 \<and> lower_letter c = lower_unit c"
  unfolding lower_letter_def lower_unit_def
  by (auto; unat_arith)

lemma lower_from_Basic_Latin: "Basic_Latin s \<Longrightarrow> lower_from b s = map lower_unit s"
  by (induction s arbitrary: b) (simp_all add: Basic_Latin_def lower_letter_Basic_Latin)

text \<open>On Basic Latin strings the two descriptions of the runtime's function agree.\<close>

lemma toLowerCase_greek_Basic_Latin:
  "Basic_Latin s \<Longrightarrow> toLowerCase_greek s = toLowerCase_ascii s"
  by (simp add: toLowerCase_greek_def toLowerCase_ascii_def lower_from_Basic_Latin)

text \<open>
  C1. With a query of nonzero length, and for every lower-casing that acts on Basic
  Latin strings as the runtime's does: the derived list is the posts for which the
  lower-cased title, one space and body contain the lower-cased query as a contiguous
  run, in the order of \<open>posts\<close>, hence a subsequence of \<open>posts\<close>. When the query and
  the text of every post are Basic Latin, these are exactly the posts whose title, one
  space and body contain the query as a case-insensitive substring, and a query that
  differs from the stored one only in the case of its letters gives the same list.
\<close>

theorem searchedPosts_lowercased_filter:
  assumes "length (searchQuery st) \<noteq> 0"
      and "\<And>s. Basic_Latin s \<Longrightarrow> lc s = toLowerCase_ascii s"
  shows "searchedPosts lc st =
           filter (\<lambda>p. sublist (lc (searchQuery st))
                                (lc (ToString (title p) @ [0x20] @ ToString (body p))))
                  (posts st)
       \<and> subseq (searchedPosts lc st) (posts st)
       \<and> (Basic_Latin (searchQuery st)
            \<and> list_all (\<lambda>p. Basic_Latin (ToString (title p) @ [0x20] @ ToString (body p)))
                        (posts st) \<longrightarrow>
          searchedPosts lc st =
            filter (\<lambda>p. case_insensitive_substring (searchQuery st)
                          (ToString (title p) @ [0x20] @ ToString (body p)))
                   (posts st))
       \<and> (\<forall>q. Basic_Latin (searchQuery st) \<and> list_all2 same_letter q (searchQuery st) \<longrightarrow>
              searchedPosts lc (st\<lparr>searchQuery := q\<rparr>) = searchedPosts lc st)"
proof (intro conjI allI impI)
  show lowered: "searchedPosts lc st =
          filter (\<lambda>p. sublist (lc (searchQuery st))
                               (lc (ToString (title p) @ [0x20] @ ToString (body p))))
                 (posts st)"
    using assms(1) by (simp add: searchedPosts_filter post_text_def lit_space)
  show "subseq (searchedPosts lc st) (posts st)"
    by (simp add: searchedPosts_def)
  {
    assume latin: "Basic_Latin (searchQuery st)
            \<and> list_all (\<lambda>p. Basic_Latin (ToString (title p) @ [0x20] @ ToString (body p)))
                        (posts st)"
    then have query: "lc (searchQuery st) = map lower_unit (searchQuery st)"
      using assms(2) by (simp add: toLowerCase_ascii_def)
    have lowered_text: "lc (ToString (title p) @ [0x20] @ ToString (body p))
                  = map lower_unit (ToString (title p) @ [0x20] @ ToString (body p))"
      if "p \<in> set (posts st)" for p
    proof -
      from latin that have "Basic_Latin (ToString (title p) @ [0x20] @ ToString (body p))"
        by (simp add: list_all_iff)
      then show ?thesis
        using assms(2) by (simp only: toLowerCase_ascii_def)
    qed
    have "filter (\<lambda>p. sublist (lc (searchQuery st))
                               (lc (ToString (title p) @ [0x20] @ ToString (body p))))
                 (posts st)
          = filter (\<lambda>p. case_insensitive_substring (searchQuery st)
                          (ToString (title p) @ [0x20] @ ToString (body p)))
                   (posts st)"
      by (rule filter_cong [OF refl])
         (simp only: query lowered_text case_insensitive_substring_iff)
    with lowered show "searchedPosts lc st =
            filter (\<lambda>p. case_insensitive_substring (searchQuery st)
                          (ToString (title p) @ [0x20] @ ToString (body p)))
                   (posts st)"
      by (simp only:)
  }
next
  fix q
  assume same: "Basic_Latin (searchQuery st) \<and> list_all2 same_letter q (searchQuery st)"
  then have "Basic_Latin q"
    by (blast intro: same_letters_Basic_Latin)
  with same have "lc q = lc (searchQuery st)"
    using assms(2) by (simp add: toLowerCase_ascii_def same_letters_lower)
  moreover from same have "length q = length (searchQuery st)"
    by (blast dest: list_all2_lengthD)
  ultimately show "searchedPosts lc (st\<lparr>searchQuery := q\<rparr>) = searchedPosts lc st"
    using assms(1) by (simp add: searchedPosts_def)
qed

theorem searchedPosts_lowercased_filter_witness:
  "length (searchQuery quantum_store) \<noteq> 0
   \<and> Basic_Latin (searchQuery quantum_store)
   \<and> list_all (\<lambda>p. Basic_Latin (ToString (title p) @ [0x20] @ ToString (body p)))
              (posts quantum_store)
   \<and> searchedPosts toLowerCase_greek quantum_store = [quantum_post]
   \<and> subseq [quantum_post] (posts quantum_store)
   \<and> list_all2 same_letter (lit ''QUANTUM'') (searchQuery quantum_store)
   \<and> searchedPosts toLowerCase_greek (quantum_store\<lparr>searchQuery := lit ''QUANTUM''\<rparr>)
       = [quantum_post]
   \<and> searchedPosts toLowerCase_greek \<lparr>posts = [edge_post, QUANTUM_post], searchQuery = lit ''quantum''\<rparr>
       = [QUANTUM_post]"
proof -
  have nonempty: "length (searchQuery quantum_store) \<noteq> 0"
    by (simp add: quantum_store_def lit_def)
  have latin_query: "Basic_Latin (searchQuery quantum_store)"
    by (simp add: quantum_store_def Basic_Latin_def lit_def)
  have latin_posts:
    "list_all (\<lambda>p. Basic_Latin (ToString (title p) @ [0x20] @ ToString (body p)))
              (posts quantum_store)"
    by (simp add: quantum_store_def edge_post_def quantum_post_def Basic_Latin_def lit_def)
  have capitals: "list_all2 same_letter (lit ''QUANTUM'') (searchQuery quantum_store)"
    by (simp add: quantum_store_def same_letter_def lit_def)
  note inst = searchedPosts_lowercased_filter
    [OF nonempty toLowerCase_greek_Basic_Latin]
  from inst latin_query latin_posts have
    "searchedPosts toLowerCase_greek quantum_store =
       filter (\<lambda>p. case_insensitive_substring (searchQuery quantum_store)
                     (ToString (title p) @ [0x20] @ ToString (body p)))
              (posts quantum_store)"
    by blast
  then have val: "searchedPosts toLowerCase_greek quantum_store = [quantum_post]"
    by (simp add: quantum_store_def edge_post_def quantum_post_def same_letter_def lit_def)
  from inst have "subseq (searchedPosts toLowerCase_greek quantum_store) (posts quantum_store)"
    by blast
  with val have sub: "subseq [quantum_post] (posts quantum_store)"
    by (simp only:)
  from inst latin_query capitals have
    "searchedPosts toLowerCase_greek (quantum_store\<lparr>searchQuery := lit ''QUANTUM''\<rparr>)
       = searchedPosts toLowerCase_greek quantum_store"
    by blast
  with val have upper:
    "searchedPosts toLowerCase_greek (quantum_store\<lparr>searchQuery := lit ''QUANTUM''\<rparr>)
       = [quantum_post]"
    by (simp only:)
  have nonempty2:
    "length (searchQuery \<lparr>posts = [edge_post, QUANTUM_post], searchQuery = lit ''quantum''\<rparr>) \<noteq> 0"
    by (simp add: lit_def)
  note inst2 = searchedPosts_lowercased_filter
    [OF nonempty2 toLowerCase_greek_Basic_Latin]
  have "Basic_Latin (searchQuery \<lparr>posts = [edge_post, QUANTUM_post], searchQuery = lit ''quantum''\<rparr>)
      \<and> list_all (\<lambda>p. Basic_Latin (ToString (title p) @ [0x20] @ ToString (body p)))
           (posts \<lparr>posts = [edge_post, QUANTUM_post], searchQuery = lit ''quantum''\<rparr>)"
    by (simp add: edge_post_def QUANTUM_post_def Basic_Latin_def lit_def)
  with inst2 have
    "searchedPosts toLowerCase_greek \<lparr>posts = [edge_post, QUANTUM_post], searchQuery = lit ''quantum''\<rparr>
       = filter (\<lambda>p. case_insensitive_substring
                       (searchQuery \<lparr>posts = [edge_post, QUANTUM_post], searchQuery = lit ''quantum''\<rparr>)
                       (ToString (title p) @ [0x20] @ ToString (body p)))
                (posts \<lparr>posts = [edge_post, QUANTUM_post], searchQuery = lit ''quantum''\<rparr>)"
    by blast
  then have shouted:
    "searchedPosts toLowerCase_greek \<lparr>posts = [edge_post, QUANTUM_post], searchQuery = lit ''quantum''\<rparr>
       = [QUANTUM_post]"
    by (simp add: edge_post_def QUANTUM_post_def same_letter_def lit_def)
  show ?thesis
    using nonempty latin_query latin_posts val sub capitals upper shouted
    by blast
qed

text \<open>
  Outside Basic Latin the derived list is not the case-insensitive substring match. The
  query \<^verbatim>\<open>U+0391 U+03A3\<close> stands verbatim at the start of the text of \<open>greek_post\<close>, yet
  the post is not selected: the sigma that ends the query is lower-cased to the final
  sigma, the one inside the title to the plain one. The query in small letters,
  \<^verbatim>\<open>U+03B1 U+03C3\<close>, does select the post.
\<close>

theorem searchedPosts_final_sigma_counterexample:
  "length (searchQuery greek_store) \<noteq> 0
   \<and> posts greek_store = [greek_post]
   \<and> sublist (searchQuery greek_store)
             (ToString (title greek_post) @ [0x20] @ ToString (body greek_post))
   \<and> case_insensitive_substring (searchQuery greek_store)
             (ToString (title greek_post) @ [0x20] @ ToString (body greek_post))
   \<and> searchedPosts toLowerCase_greek greek_store = []
   \<and> searchedPosts toLowerCase_greek (greek_store\<lparr>searchQuery := [0x3B1, 0x3C3]\<rparr>) = [greek_post]"
proof (intro conjI)
  show "sublist (searchQuery greek_store)
             (ToString (title greek_post) @ [0x20] @ ToString (body greek_post))"
    by (simp add: greek_store_def greek_post_def)
  show "case_insensitive_substring (searchQuery greek_store)
             (ToString (title greek_post) @ [0x20] @ ToString (body greek_post))"
    by (simp add: greek_store_def greek_post_def same_letter_def)
  show "searchedPosts toLowerCase_greek greek_store = []"
    by (simp add: searchedPosts_def greek_store_def greek_post_def post_text_def lit_def
        toLowerCase_greek_def lower_letter_def cased_def case_ignorable_def
        String_includes_def StringIndexOf.simps)
  show "searchedPosts toLowerCase_greek (greek_store\<lparr>searchQuery := [0x3B1, 0x3C3]\<rparr>) = [greek_post]"
    by (simp add: searchedPosts_def greek_store_def greek_post_def post_text_def lit_def
        toLowerCase_greek_def lower_letter_def cased_def case_ignorable_def
        String_includes_def StringIndexOf.simps)
qed (simp_all add: greek_store_def)

subsection \<open>The mutations\<close>

text \<open>
  C2. After \<open>handleAddPost p\<close> the posts are \<open>p\<close> followed by the prior posts: one
  more element, \<open>p\<close> at index 0, and the prior list unchanged behind it.
\<close>

theorem handleAddPost_prepends:
  "posts (handleAddPost p st) = p # posts st
   \<and> length (posts (handleAddPost p st)) = length (posts st) + 1
   \<and> posts (handleAddPost p st) ! 0 = p
   \<and> drop 1 (posts (handleAddPost p st)) = posts st"
  by (simp add: handleAddPost_def)

text \<open>
  C3. After \<open>handleClearPosts\<close> the posts are empty whatever they were before, also
  when they were empty already, so nothing is displayed; clearing twice leaves the same
  store as clearing once.
\<close>

theorem handleClearPosts_empties_idempotent:
  "posts (handleClearPosts st) = []
   \<and> posts (handleClearPosts (st\<lparr>posts := []\<rparr>)) = []
   \<and> searchedPosts lc (handleClearPosts st) = []
   \<and> handleClearPosts (handleClearPosts st) = handleClearPosts st"
  by (simp add: handleClearPosts_def searchedPosts_def)

text \<open>
  C4. With the empty string as query the derived list is the posts list itself: the
  same posts in the same order.
\<close>

theorem searchedPosts_empty_query:
  "searchedPosts lc \<lparr>posts = ps, searchQuery = lit ''''\<rparr> = ps
   \<and> searchedPosts lc (setSearchQuery (lit '''') st) = posts st"
  by (simp add: searchedPosts_def setSearchQuery_def lit_def)

text \<open>
  C5. Title and body are joined by one space. For every lower-casing that, like the
  runtime's, sends \<^verbatim>\<open>"Edge Case"\<close> to \<^verbatim>\<open>"edge case"\<close> and leaves \<^verbatim>\<open>"gecas"\<close> and
  \<^verbatim>\<open>"dge cas"\<close> as they are: the post with title \<^verbatim>\<open>"Edge"\<close> and body \<^verbatim>\<open>"Case"\<close> is never
  selected by the query \<^verbatim>\<open>"gecas"\<close>, although \<^verbatim>\<open>"edgecase"\<close>, the join without a
  separator, does include that query; and the query \<^verbatim>\<open>"dge cas"\<close> selects it from any
  posts list.
\<close>

theorem searchedPosts_joins_with_space:
  assumes "lc (lit ''Edge Case'') = lit ''edge case''"
      and "lc (lit ''gecas'') = lit ''gecas''"
      and "lc (lit ''dge cas'') = lit ''dge cas''"
  shows "edge_post \<notin> set (searchedPosts lc \<lparr>posts = ps, searchQuery = lit ''gecas''\<rparr>)
       \<and> String_includes (lit ''edgecase'') (lit ''gecas'')
       \<and> searchedPosts lc \<lparr>posts = before @ edge_post # after, searchQuery = lit ''dge cas''\<rparr>
           = searchedPosts lc \<lparr>posts = before, searchQuery = lit ''dge cas''\<rparr>
             @ edge_post # searchedPosts lc \<lparr>posts = after, searchQuery = lit ''dge cas''\<rparr>"
proof (intro conjI)
  have "lit ''gecas'' \<noteq> []"
    by (simp add: lit_def)
  then show "edge_post \<notin> set (searchedPosts lc \<lparr>posts = ps, searchQuery = lit ''gecas''\<rparr>)"
    using assms(1,2) edge_case_excludes_gecas
    by (simp add: searchedPosts_def post_text_edge_post)
  show "String_includes (lit ''edgecase'') (lit ''gecas'')"
    by (simp add: String_includes_def StringIndexOf.simps lit_def)
  have "lit ''dge cas'' \<noteq> []"
    by (simp add: lit_def)
  then show "searchedPosts lc \<lparr>posts = before @ edge_post # after, searchQuery = lit ''dge cas''\<rparr>
           = searchedPosts lc \<lparr>posts = before, searchQuery = lit ''dge cas''\<rparr>
             @ edge_post # searchedPosts lc \<lparr>posts = after, searchQuery = lit ''dge cas''\<rparr>"
    using assms(1,3) edge_case_includes_dge_cas
    by (simp add: searchedPosts_def post_text_edge_post)
qed

theorem searchedPosts_joins_with_space_witness:
  "toLowerCase_ascii (lit ''Edge Case'') = lit ''edge case''
   \<and> toLowerCase_ascii (lit ''gecas'') = lit ''gecas''
   \<and> toLowerCase_ascii (lit ''dge cas'') = lit ''dge cas''
   \<and> edge_post \<notin> set (searchedPosts toLowerCase_ascii
                         \<lparr>posts = [edge_post], searchQuery = lit ''gecas''\<rparr>)
   \<and> searchedPosts toLowerCase_ascii \<lparr>posts = [edge_post], searchQuery = lit ''gecas''\<rparr> = []
   \<and> searchedPosts toLowerCase_ascii \<lparr>posts = [] @ edge_post # [], searchQuery = lit ''dge cas''\<rparr>
       = [edge_post]"
proof -
  note inst = searchedPosts_joins_with_space
    [OF toLowerCase_ascii_Edge_Case toLowerCase_ascii_gecas toLowerCase_ascii_dge_cas,
     of "[edge_post]" "[]" "[]"]
  from inst have excluded:
    "edge_post \<notin> set (searchedPosts toLowerCase_ascii
                         \<lparr>posts = [edge_post], searchQuery = lit ''gecas''\<rparr>)"
    by blast
  have "lit ''gecas'' \<noteq> []"
    by (simp add: lit_def)
  then have empty:
    "searchedPosts toLowerCase_ascii \<lparr>posts = [edge_post], searchQuery = lit ''gecas''\<rparr> = []"
    using edge_case_excludes_gecas
    by (simp add: searchedPosts_def post_text_edge_post toLowerCase_ascii_Edge_Case
        toLowerCase_ascii_gecas)
  have none: "searchedPosts toLowerCase_ascii \<lparr>posts = [], searchQuery = lit ''dge cas''\<rparr> = []"
    by (simp add: searchedPosts_def)
  from inst have
    "searchedPosts toLowerCase_ascii \<lparr>posts = [] @ edge_post # [], searchQuery = lit ''dge cas''\<rparr>
       = searchedPosts toLowerCase_ascii \<lparr>posts = [], searchQuery = lit ''dge cas''\<rparr>
         @ edge_post # searchedPosts toLowerCase_ascii \<lparr>posts = [], searchQuery = lit ''dge cas''\<rparr>"
    by blast
  then have included:
    "searchedPosts toLowerCase_ascii \<lparr>posts = [] @ edge_post # [], searchQuery = lit ''dge cas''\<rparr>
       = [edge_post]"
    by (simp only: none append_Nil)
  show ?thesis
    using excluded empty included
      toLowerCase_ascii_Edge_Case toLowerCase_ascii_gecas toLowerCase_ascii_dge_cas
    by blast
qed

subsection \<open>Store creation\<close>

lemma Array_from_length: "length (fst (Array_from n mapFn g)) = n"
  by (induction n arbitrary: g) (simp_all add: split_beta Let_def)

lemma Array_from_Suc_snd:
  "snd (Array_from (Suc k) mapFn g) = snd (Array_from k mapFn (snd (mapFn g)))"
  by (simp add: split_beta Let_def)

lemma Array_from_calls:
  "fst (Array_from n mapFn g) = map (\<lambda>k. fst (mapFn (snd (Array_from k mapFn g)))) [0..<n]"
proof (induction n arbitrary: g)
  case 0
  show ?case by simp
next
  case (Suc n)
  have "fst (Array_from (Suc n) mapFn g)
          = fst (mapFn g) # fst (Array_from n mapFn (snd (mapFn g)))"
    by (simp add: split_beta Let_def)
  also have "\<dots> = fst (mapFn g)
          # map (\<lambda>k. fst (mapFn (snd (Array_from k mapFn (snd (mapFn g)))))) [0..<n]"
    by (simp only: Suc.IH)
  also have "\<dots> = fst (mapFn (snd (Array_from 0 mapFn g)))
          # map (\<lambda>k. fst (mapFn (snd (Array_from (Suc k) mapFn g)))) [0..<n]"
    by (simp add: split_beta Let_def)
  also have "\<dots> = map (\<lambda>k. fst (mapFn (snd (Array_from k mapFn g)))) (0 # map Suc [0..<n])"
    by (simp add: comp_def)
  also have "0 # map Suc [0..<n] = [0..<Suc n]"
    by (simp only: map_Suc_upt upt_conv_Cons [OF zero_less_Suc])
  finally show ?case .
qed

lemma createRandomPost_strings:
  "\<exists>t b. fst (createRandomPost fk g) = \<lparr>title = JSString t, body = JSString b\<rparr>"
  by (simp add: createRandomPost_def split_beta Let_def)

text \<open>With the stand-in generator: the first post created, and the 90 draws of 30 posts.\<close>

lemma createRandomPost_counting_faker:
  "createRandomPost counting_faker 0
     = (\<lparr>title = JSString (lit ''virtual x''), body = JSString (lit ''We need to copy the bus'')\<rparr>, 3)"
  by (simp add: createRandomPost_def counting_faker_def lit_def eval_nat_numeral)

lemma createRandomPost_counting_faker_state:
  "snd (createRandomPost counting_faker g) = g + 3"
  by (simp add: createRandomPost_def counting_faker_def)

lemma Array_from_counting_faker_state:
  "snd (Array_from n (createRandomPost counting_faker) g) = g + 3 * n"
  by (induction n arbitrary: g)
     (simp_all add: split_beta Let_def createRandomPost_counting_faker_state)

lemma PostProvider_counting_faker_state:
  "snd (PostProvider counting_faker None 0) = 90"
  using Array_from_counting_faker_state [of 30 0]
  by (simp add: PostProvider_def split_beta Let_def del: Array_from.simps)

text \<open>
  C6. The initial render of \<^verbatim>\<open>PostProvider\<close> creates a store with exactly 30 posts, the
  \<open>k\<close>-th being what \<open>createRandomPost\<close> returns at the generator state left by the
  \<open>k\<close> calls before it, and with the empty string as query. A later render returns the
  stored state as it is and draws nothing from the generator: the posts are generated
  once. Neither case has an error result.
\<close>

theorem PostProvider_creates_store:
  "length (posts (fst (PostProvider fk None g))) = 30
   \<and> posts (fst (PostProvider fk None g))
       = map (\<lambda>k. fst (createRandomPost fk (snd (Array_from k (createRandomPost fk) g)))) [0..<30]
   \<and> searchQuery (fst (PostProvider fk None g)) = lit ''''
   \<and> PostProvider fk (Some st) g1 = (st, g1)"
proof (intro conjI)
  have created: "posts (fst (PostProvider fk None g)) = fst (Array_from 30 (createRandomPost fk) g)"
    by (simp add: PostProvider_def split_beta Let_def del: Array_from.simps)
  show "length (posts (fst (PostProvider fk None g))) = 30"
    by (simp only: created Array_from_length)
  show "posts (fst (PostProvider fk None g))
       = map (\<lambda>k. fst (createRandomPost fk (snd (Array_from k (createRandomPost fk) g)))) [0..<30]"
    by (simp only: created Array_from_calls [of 30])
  show "searchQuery (fst (PostProvider fk None g)) = lit ''''"
    by (simp add: PostProvider_def split_beta Let_def lit_def del: Array_from.simps)
  show "PostProvider fk (Some st) g1 = (st, g1)"
    by (simp add: PostProvider_def)
qed

text \<open>
  C7. The three mutations have no error result and no precondition: each returns the
  updated store for every argument. In particular a post that lacks its title or its
  body, or has the empty string there, is prepended like any other, and the derived
  list can still be read afterwards.
\<close>

theorem mutations_total:
  "handleAddPost p st = \<lparr>posts = p # posts st, searchQuery = searchQuery st\<rparr>
   \<and> handleClearPosts st = \<lparr>posts = [], searchQuery = searchQuery st\<rparr>
   \<and> setSearchQuery q st = \<lparr>posts = posts st, searchQuery = q\<rparr>
   \<and> posts (handleAddPost \<lparr>title = Undefined, body = Undefined\<rparr> st)
       = \<lparr>title = Undefined, body = Undefined\<rparr> # posts st
   \<and> posts (handleAddPost \<lparr>title = JSString (lit ''''), body = Undefined\<rparr> st)
       = \<lparr>title = JSString (lit ''''), body = Undefined\<rparr> # posts st
   \<and> posts (handleAddPost \<lparr>title = Undefined, body = JSString (lit '''')\<rparr> st)
       = \<lparr>title = Undefined, body = JSString (lit '''')\<rparr> # posts st
   \<and> searchedPosts toLowerCase_ascii
        (setSearchQuery (lit ''undef'')
          (handleAddPost \<lparr>title = Undefined, body = JSString (lit '''')\<rparr> (handleClearPosts st)))
       = [\<lparr>title = Undefined, body = JSString (lit '''')\<rparr>]"
proof (intro conjI)
  show "searchedPosts toLowerCase_ascii
        (setSearchQuery (lit ''undef'')
          (handleAddPost \<lparr>title = Undefined, body = JSString (lit '''')\<rparr> (handleClearPosts st)))
       = [\<lparr>title = Undefined, body = JSString (lit '''')\<rparr>]"
    by (simp add: searchedPosts_def setSearchQuery_def handleAddPost_def handleClearPosts_def
        post_text_def toLowerCase_ascii_def lower_unit_def lit_def
        String_includes_def StringIndexOf.simps)
qed (simp_all add: handleAddPost_def handleClearPosts_def setSearchQuery_def)

subsection \<open>The add-post form\<close>

text \<open>
  C8. On submit, when the entered title or the entered body is the empty string the
  callback is not called and the fields keep their contents; otherwise it is called
  exactly once, with the post made of the entered title and body, and both fields are
  reset to the empty string. Either way the event's default action is prevented.
\<close>

theorem handleSubmit_guards_addPost:
  "handleSubmit cb e f s =
     (if form_title f = lit '''' \<or> form_body f = lit ''''
      then (e\<lparr>defaultPrevented := True\<rparr>, f, s)
      else (e\<lparr>defaultPrevented := True\<rparr>,
            \<lparr>form_title = lit '''', form_body = lit ''''\<rparr>,
            cb \<lparr>title = JSString (form_title f), body = JSString (form_body f)\<rparr> s))
   \<and> handleSubmit record_call e f calls =
     (if form_title f = lit '''' \<or> form_body f = lit ''''
      then (e\<lparr>defaultPrevented := True\<rparr>, f, calls)
      else (e\<lparr>defaultPrevented := True\<rparr>,
            \<lparr>form_title = lit '''', form_body = lit ''''\<rparr>,
            calls @ [\<lparr>title = JSString (form_title f), body = JSString (form_body f)\<rparr>]))"
  by (auto simp add: handleSubmit_def not_string_def record_call_def lit_def Let_def)

theorem handleSubmit_guards_addPost_witness:
  "handleSubmit record_call \<lparr>defaultPrevented = False\<rparr>
      \<lparr>form_title = lit ''Edge'', form_body = lit ''''\<rparr> []
     = (\<lparr>defaultPrevented = True\<rparr>, \<lparr>form_title = lit ''Edge'', form_body = lit ''''\<rparr>, [])
   \<and> handleSubmit record_call \<lparr>defaultPrevented = False\<rparr>
      \<lparr>form_title = lit '''', form_body = lit ''Case''\<rparr> []
     = (\<lparr>defaultPrevented = True\<rparr>, \<lparr>form_title = lit '''', form_body = lit ''Case''\<rparr>, [])
   \<and> handleSubmit record_call \<lparr>defaultPrevented = False\<rparr>
      \<lparr>form_title = lit ''Edge'', form_body = lit ''Case''\<rparr> []
     = (\<lparr>defaultPrevented = True\<rparr>, \<lparr>form_title = lit '''', form_body = lit ''''\<rparr>, [edge_post])
   \<and> handleSubmit handleAddPost \<lparr>defaultPrevented = False\<rparr>
      \<lparr>form_title = lit ''Edge'', form_body = lit ''Case''\<rparr> quantum_store
     = (\<lparr>defaultPrevented = True\<rparr>, \<lparr>form_title = lit '''', form_body = lit ''''\<rparr>,
        \<lparr>posts = [edge_post, edge_post, quantum_post], searchQuery = lit ''quantum''\<rparr>)"
  using
    handleSubmit_guards_addPost [of record_call "\<lparr>defaultPrevented = False\<rparr>"
      "\<lparr>form_title = lit ''Edge'', form_body = lit ''''\<rparr>" "[]" "[]"]
    handleSubmit_guards_addPost [of record_call "\<lparr>defaultPrevented = False\<rparr>"
      "\<lparr>form_title = lit '''', form_body = lit ''Case''\<rparr>" "[]" "[]"]
    handleSubmit_guards_addPost [of record_call "\<lparr>defaultPrevented = False\<rparr>"
      "\<lparr>form_title = lit ''Edge'', form_body = lit ''Case''\<rparr>" "[]" "[]"]
    handleSubmit_guards_addPost [of handleAddPost "\<lparr>defaultPrevented = False\<rparr>"
      "\<lparr>form_title = lit ''Edge'', form_body = lit ''Case''\<rparr>" quantum_store "[]"]
  by (simp add: lit_def edge_post_def handleAddPost_def quantum_store_def)

subsection \<open>Frame\<close>

text \<open>
  C9. Each mutation writes its own cell only: adding and clearing leave the query as
  it was, and setting the query leaves the posts as they were and stores the new query
  unchanged.
\<close>

theorem mutations_frame:
  "searchQuery (handleAddPost p st) = searchQuery st
   \<and> searchQuery (handleClearPosts st) = searchQuery st
   \<and> posts (setSearchQuery q st) = posts st
   \<and> searchQuery (setSearchQuery q st) = q"
  by (simp add: handleAddPost_def handleClearPosts_def setSearchQuery_def)

subsection \<open>Reading the context\<close>

lemma useContext_None_iff: "useContext up = None \<longleftrightarrow> (\<forall>v. PostProvider_element v \<notin> set up)"
proof (induction up)
  case Nil
  show ?case by simp
next
  case (Cons a up)
  then show ?case by (cases a) auto
qed

lemma useContext_nearest:
  "(\<forall>w. PostProvider_element w \<notin> set nearer) \<Longrightarrow>
   useContext (nearer @ PostProvider_element v # further) = Some v"
proof (induction nearer)
  case Nil
  show ?case by simp
next
  case (Cons a nearer)
  then show ?case by (cases a) auto
qed

text \<open>
  C10. \<open>usePosts\<close> throws the error with message
  \<^verbatim>\<open>PostContext was used outside of the PostProvider\<close> exactly when no \<^verbatim>\<open>PostProvider\<close>
  is above the caller; below a provider it returns the value of the nearest one and does
  not throw.
\<close>

theorem usePosts_outside_provider:
  "(usePosts up = Inl (Error ''PostContext was used outside of the PostProvider'')
      \<longleftrightarrow> (\<forall>v. PostProvider_element v \<notin> set up))
   \<and> ((\<forall>w. PostProvider_element w \<notin> set nearer) \<longrightarrow>
        usePosts (nearer @ PostProvider_element v # further) = Inr v)"
proof (intro conjI impI)
  show "usePosts up = Inl (Error ''PostContext was used outside of the PostProvider'')
      \<longleftrightarrow> (\<forall>v. PostProvider_element v \<notin> set up)"
    using useContext_None_iff [of up]
    by (cases "useContext up") (simp_all add: usePosts_def)
next
  assume "\<forall>w. PostProvider_element w \<notin> set nearer"
  then show "usePosts (nearer @ PostProvider_element v # further) = Inr v"
    by (simp add: usePosts_def useContext_nearest)
qed

theorem usePosts_outside_provider_witness:
  "(\<forall>v::context_value. PostProvider_element v \<notin> set [Other_element, Other_element])
   \<and> usePosts [Other_element, Other_element :: context_value element]
       = Inl (Error ''PostContext was used outside of the PostProvider'')
   \<and> (\<forall>w::context_value. PostProvider_element w \<notin> set [Other_element])
   \<and> usePosts ([Other_element]
        @ PostProvider_element (provided_value toLowerCase_ascii quantum_store) # [Other_element])
       = Inr (provided_value toLowerCase_ascii quantum_store)"
proof -
  have none: "\<forall>v::context_value. PostProvider_element v \<notin> set [Other_element, Other_element]"
    by simp
  have near: "\<forall>w::context_value. PostProvider_element w \<notin> set [Other_element]"
    by simp
  note inst1 = usePosts_outside_provider
    [where up = "[Other_element, Other_element :: context_value element]" and nearer = "[]"]
  note inst2 = usePosts_outside_provider
    [where up = "[]" and nearer = "[Other_element]"
       and v = "provided_value toLowerCase_ascii quantum_store" and further = "[Other_element]"]
  from conjunct1 [OF inst1] none
  have "usePosts [Other_element, Other_element :: context_value element]
       = Inl (Error ''PostContext was used outside of the PostProvider'')"
    by blast
  moreover from conjunct2 [OF inst2] near have "usePosts ([Other_element]
        @ PostProvider_element (provided_value toLowerCase_ascii quantum_store) # [Other_element])
       = Inr (provided_value toLowerCase_ascii quantum_store)"
    by blast
  ultimately show ?thesis using none near by blast
qed

end
